theory Spec2Isabelle
  imports Main
begin

section \<open>Profile routes (src/routes/api/profile.js)\<close>

text \<open>
  The route handlers of \<^verbatim>\<open>src/routes/api/profile.js\<close> as functions from a request and
  the profile collection to an outcome and the collection afterwards.

  Request fields are JavaScript values. The model covers the values a text form sends:
  an absent field (\<^verbatim>\<open>undefined\<close>), a string, and an array of strings. Strings are lists
  of code units below 256.
\<close>

subsection \<open>JavaScript values and string primitives\<close>

datatype jsval = Undefined | Str string | Arr "string list"

datatype exn = TypeError | URIError | LibraryError

text \<open>ToBoolean: \<^verbatim>\<open>undefined\<close> and the empty string are falsy, every array is truthy.\<close>

fun truthy :: "jsval \<Rightarrow> bool" where
  "truthy Undefined = False"
| "truthy (Str s) = (s \<noteq> [])"
| "truthy (Arr xs) = True"

text \<open>\<^verbatim>\<open>Array.prototype.join(",")\<close>, which is what an array of strings converts to.\<close>

fun join_comma :: "string list \<Rightarrow> string" where
  "join_comma [] = []"
| "join_comma [x] = x"
| "join_comma (x # y # ys) = x @ '','' @ join_comma (y # ys)"

text \<open>ToPrimitive with hint number; \<open>None\<close> stands for \<^verbatim>\<open>undefined\<close>.\<close>

fun to_primitive :: "jsval \<Rightarrow> string option" where
  "to_primitive Undefined = None"
| "to_primitive (Str s) = Some s"
| "to_primitive (Arr xs) = Some (join_comma xs)"

text \<open>The \<^verbatim>\<open><\<close> of two strings: lexicographic on code units.\<close>

fun str_lt :: "string \<Rightarrow> string \<Rightarrow> bool" where
  "str_lt [] [] = False"
| "str_lt [] (y # ys) = True"
| "str_lt (x # xs) [] = False"
| "str_lt (x # xs) (y # ys) =
     (if (of_char x :: nat) < of_char y then True
      else if (of_char y :: nat) < of_char x then False
      else str_lt xs ys)"

text \<open>
  The \<^verbatim>\<open><\<close> of two values: two strings compare as strings; \<^verbatim>\<open>undefined\<close> converts to
  NaN, and every comparison with NaN is false.
\<close>

definition js_lt :: "jsval \<Rightarrow> jsval \<Rightarrow> bool" where
  "js_lt a b =
     (case to_primitive a of
        None \<Rightarrow> False
      | Some x \<Rightarrow> (case to_primitive b of None \<Rightarrow> False | Some y \<Rightarrow> str_lt x y))"

text \<open>
  White space of \<^verbatim>\<open>String.prototype.trim\<close> among the code units below 256: TAB, LF, VT,
  FF, CR, SP and NBSP.
\<close>

definition is_ws :: "char \<Rightarrow> bool" where
  "is_ws c = (let n = (of_char c :: nat) in
     n = 9 \<or> n = 10 \<or> n = 11 \<or> n = 12 \<or> n = 13 \<or> n = 32 \<or> n = 160)"

definition trim :: "string \<Rightarrow> string" where
  "trim s = rev (dropWhile is_ws (rev (dropWhile is_ws s)))"

text \<open>\<^verbatim>\<open>s.split(",")\<close>: the fragments between commas; the empty string gives one empty fragment.\<close>

fun split_comma :: "string \<Rightarrow> string list" where
  "split_comma [] = [[]]"
| "split_comma (c # cs) =
     (if c = CHR '','' then [] # split_comma cs
      else (case split_comma cs of
              [] \<Rightarrow> [[c]]
            | f # fs \<Rightarrow> (c # f) # fs))"

subsection \<open>Documents, requests and responses\<close>

text \<open>
  Modelled from the spec: the schema of \<^verbatim>\<open>models/Profile.js\<close> is not among the sources. A
  profile document has the fields of the specification's data model, which are the fields
  the handlers read and write: the owner, the scalar fields, the five social links and the
  two lists of sub-documents, each entry with a generated identifier that is compared in
  its string form. A field holds the value the handler hands to the store; an absent value
  is \<^verbatim>\<open>undefined\<close>.
\<close>

record exp_entry =
  exp_id :: string
  exp_title :: jsval
  exp_company :: jsval
  exp_location :: jsval
  exp_from :: jsval
  exp_to :: jsval
  exp_current :: jsval
  exp_description :: jsval

record edu_entry =
  edu_id :: string
  edu_school :: jsval
  edu_degree :: jsval
  edu_fieldofstudy :: jsval
  edu_from :: jsval
  edu_to :: jsval
  edu_current :: jsval
  edu_description :: jsval

record social =
  youtube :: jsval
  twitter :: jsval
  instagram :: jsval
  linkedin :: jsval
  facebook :: jsval

record profile =
  user :: string
  company :: jsval
  location :: jsval
  website :: jsval
  bio :: jsval
  skills :: jsval
  status :: jsval
  githubusername :: jsval
  social_links :: social
  experience :: "exp_entry list"
  education :: "edu_entry list"

text \<open>The profile collection, in the order the store scans it.\<close>

type_synonym store = "profile list"

text \<open>
  A request after the \<^verbatim>\<open>auth\<close> middleware: \<^verbatim>\<open>req.user.id\<close>, the route parameter
  (\<^verbatim>\<open>:exp_id\<close>, \<^verbatim>\<open>:edu_id\<close>, \<^verbatim>\<open>:username\<close>) and \<^verbatim>\<open>req.body\<close>, where a field the
  body does not have is \<^verbatim>\<open>undefined\<close>.
\<close>

record request =
  user_id :: string
  param :: string
  body :: "string \<Rightarrow> jsval"

datatype payload =
    Profile_json profile
  | Null_json
  | Errors_json "string list"
  | Msg_json string
  | Text string
  | Data_json string

datatype response = Response nat payload

text \<open>
  A handler either sends a response or lets an exception escape (thrown outside its
  \<^verbatim>\<open>try\<close>): then nothing is sent.
\<close>

datatype outcome = Responded response | Uncaught exn

subsection \<open>Store operations\<close>

text \<open>
  The store answers every query: a failure of the connection is not part of the model, and
  neither is the conversion of a route parameter that does not have the form of an
  identifier.

  \<^verbatim>\<open>Profile.findOne({ user: id })\<close>: the first document of that user, or \<^verbatim>\<open>null\<close>.
\<close>

definition findOne_user :: "string \<Rightarrow> store \<Rightarrow> profile option" where
  "findOne_user uid db = find (\<lambda>p. user p = uid) db"

text \<open>Writing back the document that a query found: the first match is replaced.\<close>

fun update_first :: "('a \<Rightarrow> bool) \<Rightarrow> ('a \<Rightarrow> 'a) \<Rightarrow> 'a list \<Rightarrow> 'a list" where
  "update_first P f [] = []"
| "update_first P f (x # xs) = (if P x then f x # xs else x # update_first P f xs)"

definition save :: "profile \<Rightarrow> store \<Rightarrow> store" where
  "save p db = update_first (\<lambda>q. user q = user p) (\<lambda>_. p) db"

subsection \<open>Validation chains of the sub-document routes\<close>

text \<open>
  \<^verbatim>\<open>.custom((value, { req }) => (req.body.to ? value < req.body.to : true))\<close>
\<close>

definition from_before_to :: "jsval \<Rightarrow> (string \<Rightarrow> jsval) \<Rightarrow> bool" where
  "from_before_to v b = (if truthy (b ''to'') then js_lt v (b ''to'') else True)"

text \<open>
  One message per failed validator. \<open>isEmpty\<close> is the validator of the express-validator
  library behind \<^verbatim>\<open>.not().isEmpty()\<close>; it is a parameter of the model.
\<close>

definition required :: "(jsval \<Rightarrow> bool) \<Rightarrow> (string \<Rightarrow> jsval) \<Rightarrow> string \<Rightarrow> string \<Rightarrow> string list" where
  "required isEmpty b field msg = (if isEmpty (b field) then [msg] else [])"

definition check_from :: "(jsval \<Rightarrow> bool) \<Rightarrow> (string \<Rightarrow> jsval) \<Rightarrow> string list" where
  "check_from isEmpty b =
     required isEmpty b ''from'' ''From date is required and needs to be from the past'' @
     (if from_before_to (b ''from'') b then []
      else [''From date is required and needs to be from the past''])"

definition validate_experience :: "(jsval \<Rightarrow> bool) \<Rightarrow> (string \<Rightarrow> jsval) \<Rightarrow> string list" where
  "validate_experience isEmpty b =
     required isEmpty b ''title'' ''Title is required'' @
     required isEmpty b ''company'' ''Company is required'' @
     check_from isEmpty b"

definition validate_education :: "(jsval \<Rightarrow> bool) \<Rightarrow> (string \<Rightarrow> jsval) \<Rightarrow> string list" where
  "validate_education isEmpty b =
     required isEmpty b ''school'' ''School is required'' @
     required isEmpty b ''degree'' ''Degree is required'' @
     required isEmpty b ''fieldofstudy'' ''Field of study is required'' @
     check_from isEmpty b"

subsection \<open>PUT api/profile/experience and PUT api/profile/education\<close>

text \<open>
  \<^verbatim>\<open>newExp\<close> as the handler builds it from the body; the sub-document array gives the
  entry its identifier \<open>oid\<close> when it is put into the list.
\<close>

definition newExp :: "string \<Rightarrow> (string \<Rightarrow> jsval) \<Rightarrow> exp_entry" where
  "newExp oid b =
     \<lparr>exp_id = oid, exp_title = b ''title'', exp_company = b ''company'',
      exp_location = b ''location'', exp_from = b ''from'', exp_to = b ''to'',
      exp_current = b ''current'', exp_description = b ''description''\<rparr>"

definition newEdu :: "string \<Rightarrow> (string \<Rightarrow> jsval) \<Rightarrow> edu_entry" where
  "newEdu oid b =
     \<lparr>edu_id = oid, edu_school = b ''school'', edu_degree = b ''degree'',
      edu_fieldofstudy = b ''fieldofstudy'', edu_from = b ''from'', edu_to = b ''to'',
      edu_current = b ''current'', edu_description = b ''description''\<rparr>"

text \<open>
  With no profile, \<^verbatim>\<open>profile.experience\<close> reads a property of \<^verbatim>\<open>null\<close>: the TypeError is
  caught by the handler's \<^verbatim>\<open>catch\<close>, which sends 500.
\<close>

definition add_experience ::
  "(jsval \<Rightarrow> bool) \<Rightarrow> string \<Rightarrow> request \<Rightarrow> store \<Rightarrow> outcome \<times> store" where
  "add_experience isEmpty oid rq db =
     (let errors = validate_experience isEmpty (body rq) in
      if errors \<noteq> [] then (Responded (Response 400 (Errors_json errors)), db)
      else
        (case findOne_user (user_id rq) db of
           None \<Rightarrow> (Responded (Response 500 (Text ''Server Error'')), db)
         | Some p \<Rightarrow>
             (let p' = p\<lparr>experience := newExp oid (body rq) # experience p\<rparr>
              in (Responded (Response 200 (Profile_json p')), save p' db))))"

definition add_education ::
  "(jsval \<Rightarrow> bool) \<Rightarrow> string \<Rightarrow> request \<Rightarrow> store \<Rightarrow> outcome \<times> store" where
  "add_education isEmpty oid rq db =
     (let errors = validate_education isEmpty (body rq) in
      if errors \<noteq> [] then (Responded (Response 400 (Errors_json errors)), db)
      else
        (case findOne_user (user_id rq) db of
           None \<Rightarrow> (Responded (Response 500 (Text ''Server Error'')), db)
         | Some p \<Rightarrow>
             (let p' = p\<lparr>education := newEdu oid (body rq) # education p\<rparr>
              in (Responded (Response 200 (Profile_json p')), save p' db))))"

subsection \<open>DELETE api/profile/experience/:exp_id and DELETE api/profile/education/:edu_id\<close>

definition delete_experience :: "request \<Rightarrow> store \<Rightarrow> outcome \<times> store" where
  "delete_experience rq db =
     (case findOne_user (user_id rq) db of
        None \<Rightarrow> (Responded (Response 500 (Msg_json ''Server error'')), db)
      | Some p \<Rightarrow>
          (let p' = p\<lparr>experience := filter (\<lambda>exp. exp_id exp \<noteq> param rq) (experience p)\<rparr>
           in (Responded (Response 200 (Profile_json p')), save p' db)))"

definition delete_education :: "request \<Rightarrow> store \<Rightarrow> outcome \<times> store" where
  "delete_education rq db =
     (case findOne_user (user_id rq) db of
        None \<Rightarrow> (Responded (Response 500 (Msg_json ''Server error'')), db)
      | Some p \<Rightarrow>
          (let p' = p\<lparr>education := filter (\<lambda>edu. edu_id edu \<noteq> param rq) (education p)\<rparr>
           in (Responded (Response 200 (Profile_json p')), save p' db)))"

subsection \<open>PUT api/profile/experience/:exp_id\<close>

text \<open>
  The query \<^verbatim>\<open>{ experience: { $elemMatch: { _id: exp_id } } }\<close> selects the first document
  of the collection with such an entry; \<^verbatim>\<open>req.user.id\<close> is not part of it. The positional
  \<^verbatim>\<open>$set\<close> writes the seven fields of the body into the first matching entry. With no
  match \<^verbatim>\<open>findOneAndUpdate\<close> returns \<^verbatim>\<open>null\<close> and the handler sends it.
\<close>

definition has_experience :: "string \<Rightarrow> profile \<Rightarrow> bool" where
  "has_experience i p = list_ex (\<lambda>e. exp_id e = i) (experience p)"

definition patch_experience :: "(string \<Rightarrow> jsval) \<Rightarrow> exp_entry \<Rightarrow> exp_entry" where
  "patch_experience b e =
     e\<lparr>exp_current := b ''current'', exp_title := b ''title'', exp_company := b ''company'',
       exp_location := b ''location'', exp_from := b ''from'', exp_to := b ''to'',
       exp_description := b ''description''\<rparr>"

definition update_experience :: "request \<Rightarrow> store \<Rightarrow> outcome \<times> store" where
  "update_experience rq db =
     (case find (has_experience (param rq)) db of
        None \<Rightarrow> (Responded (Response 200 Null_json), db)
      | Some p \<Rightarrow>
          (let p' = p\<lparr>experience :=
                        update_first (\<lambda>e. exp_id e = param rq) (patch_experience (body rq))
                          (experience p)\<rparr>
           in (Responded (Response 200 (Profile_json p')),
               update_first (has_experience (param rq)) (\<lambda>_. p') db)))"

subsection \<open>GET api/profile/me\<close>

definition get_me :: "request \<Rightarrow> store \<Rightarrow> outcome" where
  "get_me rq db =
     (case findOne_user (user_id rq) db of
        None \<Rightarrow> Responded (Response 400 (Errors_json [''There is no profile for this user'']))
      | Some p \<Rightarrow> Responded (Response 200 (Profile_json p)))"

subsection \<open>POST api/profile\<close>

definition validate_profile :: "(jsval \<Rightarrow> bool) \<Rightarrow> (string \<Rightarrow> jsval) \<Rightarrow> string list" where
  "validate_profile isEmpty b =
     required isEmpty b ''status'' ''Status is required'' @
     required isEmpty b ''skills'' ''Skills is required''"

text \<open>
  \<^verbatim>\<open>website === "" ? "" : normalize(website, { forceHttps: true })\<close>, where \<open>normalizeUrl\<close>
  stands for \<^verbatim>\<open>normalize\<close> of the normalize-url library with that option: a parameter of
  the model, which returns a string or throws.
\<close>

definition normalize_website :: "(jsval \<Rightarrow> exn + string) \<Rightarrow> jsval \<Rightarrow> exn + jsval" where
  "normalize_website normalizeUrl w =
     (if w = Str [] then Inr (Str [])
      else (case normalizeUrl w of Inl e \<Rightarrow> Inl e | Inr u \<Rightarrow> Inr (Str u)))"

text \<open>
  \<^verbatim>\<open>Array.isArray(skills) ? skills : skills.split(",").map((skill) => " " + skill.trim())\<close>;
  \<^verbatim>\<open>undefined\<close> has no \<^verbatim>\<open>split\<close>.
\<close>

definition normalize_skills :: "jsval \<Rightarrow> exn + jsval" where
  "normalize_skills s =
     (case s of
        Arr xs \<Rightarrow> Inr (Arr xs)
      | Str t \<Rightarrow> Inr (Arr (map (\<lambda>skill. '' '' @ trim skill) (split_comma t)))
      | Undefined \<Rightarrow> Inl TypeError)"

text \<open>The \<^verbatim>\<open>length\<close> property of a string or an array.\<close>

fun js_length :: "jsval \<Rightarrow> nat" where
  "js_length Undefined = 0"
| "js_length (Str s) = length s"
| "js_length (Arr xs) = length xs"

text \<open>
  One round of the loop over the social links:
  \<^verbatim>\<open>if (value && value.length > 0) socialfields[key] = normalize(value, { forceHttps: true })\<close>
\<close>

definition normalize_social :: "(jsval \<Rightarrow> exn + string) \<Rightarrow> jsval \<Rightarrow> exn + jsval" where
  "normalize_social normalizeUrl v =
     (if truthy v \<and> 0 < js_length v
      then (case normalizeUrl v of Inl e \<Rightarrow> Inl e | Inr u \<Rightarrow> Inr (Str u))
      else Inr v)"

definition and_then :: "exn + 'a \<Rightarrow> ('a \<Rightarrow> exn + 'b) \<Rightarrow> exn + 'b" where
  "and_then m f = (case m of Inl e \<Rightarrow> Inl e | Inr x \<Rightarrow> f x)"

text \<open>
  \<^verbatim>\<open>profileFields\<close> with its \<^verbatim>\<open>social\<close> object, evaluated in the order of the source:
  website, skills, then the five links. The first exception ends the evaluation. The
  result is the document of a new profile; its two lists are empty.
\<close>

definition build_profile_fields ::
  "(jsval \<Rightarrow> exn + string) \<Rightarrow> string \<Rightarrow> (string \<Rightarrow> jsval) \<Rightarrow> exn + profile" where
  "build_profile_fields normalizeUrl uid b =
     and_then (normalize_website normalizeUrl (b ''website'')) (\<lambda>w.
     and_then (normalize_skills (b ''skills'')) (\<lambda>sk.
     and_then (normalize_social normalizeUrl (b ''youtube'')) (\<lambda>yt.
     and_then (normalize_social normalizeUrl (b ''twitter'')) (\<lambda>tw.
     and_then (normalize_social normalizeUrl (b ''instagram'')) (\<lambda>ig.
     and_then (normalize_social normalizeUrl (b ''linkedin'')) (\<lambda>li.
     and_then (normalize_social normalizeUrl (b ''facebook'')) (\<lambda>fb.
       Inr \<lparr>user = uid, company = b ''company'', location = b ''location'', website = w,
            bio = b ''bio'', skills = sk, status = b ''status'',
            githubusername = b ''githubusername'',
            social_links = \<lparr>youtube = yt, twitter = tw, instagram = ig, linkedin = li,
                             facebook = fb\<rparr>,
            experience = [], education = []\<rparr>)))))))"

text \<open>
  The fields are built before the \<^verbatim>\<open>try\<close>, so an exception there escapes the handler.
  \<^verbatim>\<open>findOneAndUpdate\<close> with \<^verbatim>\<open>upsert\<close> sets the fields of the user's document, which keeps
  its two lists, or inserts the new document.
\<close>

definition upsert_profile ::
  "(jsval \<Rightarrow> bool) \<Rightarrow> (jsval \<Rightarrow> exn + string) \<Rightarrow> request \<Rightarrow> store \<Rightarrow> outcome \<times> store" where
  "upsert_profile isEmpty normalizeUrl rq db =
     (let errors = validate_profile isEmpty (body rq) in
      if errors \<noteq> [] then (Responded (Response 400 (Errors_json errors)), db)
      else
        (case build_profile_fields normalizeUrl (user_id rq) (body rq) of
           Inl e \<Rightarrow> (Uncaught e, db)
         | Inr f \<Rightarrow>
             (case findOne_user (user_id rq) db of
                None \<Rightarrow> (Responded (Response 200 (Profile_json f)), db @ [f])
              | Some p \<Rightarrow>
                  (let p' = f\<lparr>experience := experience p, education := education p\<rparr>
                   in (Responded (Response 200 (Profile_json p')), save p' db)))))"

subsection \<open>GET api/profile/github/:username\<close>

definition github_uri :: "string \<Rightarrow> string \<Rightarrow> string \<Rightarrow> string" where
  "github_uri username client_id secret =
     ''https://api.github.com/users/'' @ username @
     ''/repos?per_page=5&sort=created:asc&client_id='' @ client_id @
     ''&client_secret='' @ secret"

text \<open>
  The whole handler is inside \<^verbatim>\<open>try\<close>. \<^verbatim>\<open>config.get\<close>, \<^verbatim>\<open>encodeURI\<close> and \<^verbatim>\<open>axios.get\<close>
  are parameters: each returns a string or throws.
\<close>

definition get_github ::
  "(string \<Rightarrow> exn + string) \<Rightarrow> (string \<Rightarrow> exn + string) \<Rightarrow> (string \<Rightarrow> exn + string) \<Rightarrow>
   request \<Rightarrow> outcome" where
  "get_github config_get encodeURI axios_get rq =
     (case and_then (config_get ''githubClientId'') (\<lambda>client_id.
           and_then (config_get ''githubSecret'') (\<lambda>secret.
           and_then (encodeURI (github_uri (param rq) client_id secret)) axios_get)) of
        Inl err \<Rightarrow> Responded (Response 404 (Msg_json ''No Github profile found''))
      | Inr data \<Rightarrow> Responded (Response 200 (Data_json data)))"

text \<open>
  The specification's result of the lookup is a sequence of repository summaries. As the
  JSON text of a response body a sequence is an array: white space aside, it begins with
  \<^verbatim>\<open>[\<close> and ends with \<^verbatim>\<open>]\<close>. A body that is not of that form is a malformed response. The
  definition is for the comparison with the handler, which sends the body without looking
  at it; it is not part of the source.
\<close>

definition json_array_text :: "string \<Rightarrow> bool" where
  "json_array_text d =
     (case trim d of
        [] \<Rightarrow> False
      | c # cs \<Rightarrow> c = CHR ''['' \<and> (case rev (c # cs) of [] \<Rightarrow> False | l # _ \<Rightarrow> l = CHR '']''))"

subsection \<open>Instances of the library parameters\<close>

text \<open>
  An \<open>isEmpty\<close> for concrete requests: a field is empty when it is absent, the empty
  string, or an array whose first element is missing or empty.
\<close>

fun isEmpty_text :: "jsval \<Rightarrow> bool" where
  "isEmpty_text Undefined = True"
| "isEmpty_text (Str s) = (s = [])"
| "isEmpty_text (Arr []) = True"
| "isEmpty_text (Arr (x # xs)) = (x = [])"

subsection \<open>Calendar dates\<close>

text \<open>
  The specification orders the two dates of an entry chronologically, while the handler
  compares the two fields as they arrive. The definitions of this subsection say what
  chronological order is, for the comparison with \<open>js_lt\<close>; they are not part of the
  source. A date is a year, a month and a day.
\<close>

type_synonym ymd = "nat \<times> nat \<times> nat"

fun chronologically_earlier :: "ymd \<Rightarrow> ymd \<Rightarrow> bool" where
  "chronologically_earlier (y, m, d) (y', m', d') =
     (y < y' \<or> (y = y' \<and> (m < m' \<or> (m = m' \<and> d < d'))))"

text \<open>
  The form \<^verbatim>\<open>YYYY-MM-DD\<close> of a date, as a date input of a browser sends it: four, two and
  two decimal digits, padded with zeros.
\<close>

fun digits :: "nat \<Rightarrow> nat \<Rightarrow> string" where
  "digits 0 n = []"
| "digits (Suc w) n = digits w (n div 10) @ [char_of (48 + n mod 10)]"

fun fits :: "ymd \<Rightarrow> bool" where
  "fits (y, m, d) = (y < 10000 \<and> m < 100 \<and> d < 100)"

fun iso_date :: "ymd \<Rightarrow> string" where
  "iso_date (y, m, d) = digits 4 y @ ''-'' @ digits 2 m @ ''-'' @ digits 2 d"

text \<open>
  The date that a text of the form year-month-day denotes, its three numbers written in
  decimal with or without leading zeros.
\<close>

fun split_dash :: "string \<Rightarrow> string list" where
  "split_dash [] = [[]]"
| "split_dash (c # cs) =
     (if c = CHR ''-'' then [] # split_dash cs
      else (case split_dash cs of
              [] \<Rightarrow> [[c]]
            | f # fs \<Rightarrow> (c # f) # fs))"

fun number_from :: "nat \<Rightarrow> string \<Rightarrow> nat option" where
  "number_from n [] = Some n"
| "number_from n (c # cs) =
     (if 48 \<le> (of_char c :: nat) \<and> (of_char c :: nat) \<le> 57
      then number_from (10 * n + (of_char c - 48)) cs
      else None)"

definition number_of :: "string \<Rightarrow> nat option" where
  "number_of s = (if s = [] then None else number_from 0 s)"

definition date_of :: "string \<Rightarrow> ymd option" where
  "date_of s =
     (case split_dash s of
        [a, b, c] \<Rightarrow>
          (case number_of a of
             None \<Rightarrow> None
           | Some y \<Rightarrow>
               (case number_of b of
                  None \<Rightarrow> None
                | Some m \<Rightarrow> (case number_of c of None \<Rightarrow> None | Some d \<Rightarrow> Some (y, m, d))))
      | _ \<Rightarrow> None)"

subsection \<open>Concrete requests and documents\<close>

text \<open>A body whose fields are the given texts.\<close>

definition text_body :: "(string \<times> string) list \<Rightarrow> string \<Rightarrow> jsval" where
  "text_body kvs k = (case map_of kvs k of None \<Rightarrow> Undefined | Some v \<Rightarrow> Str v)"

definition blank_profile :: "string \<Rightarrow> profile" where
  "blank_profile uid =
     \<lparr>user = uid, company = Undefined, location = Undefined, website = Undefined,
      bio = Undefined, skills = Undefined, status = Undefined, githubusername = Undefined,
      social_links = \<lparr>youtube = Undefined, twitter = Undefined, instagram = Undefined,
                       linkedin = Undefined, facebook = Undefined\<rparr>,
      experience = [], education = []\<rparr>"

definition engineer :: "string \<Rightarrow> jsval" where
  "engineer = text_body [(''title'', ''Engineer''), (''company'', ''Acme''), (''from'', ''2021-01-01'')]"

definition analyst :: "string \<Rightarrow> jsval" where
  "analyst = text_body [(''title'', ''Analyst''), (''company'', ''Initech''), (''from'', ''2019-03-01''),
                        (''to'', ''2020-12-31'')]"

definition bachelor :: "string \<Rightarrow> jsval" where
  "bachelor = text_body [(''school'', ''MIT''), (''degree'', ''BSc''), (''fieldofstudy'', ''Physics''),
                         (''from'', ''2010-09-01''), (''to'', ''2014-06-30'')]"

definition master :: "string \<Rightarrow> jsval" where
  "master = text_body [(''school'', ''ETH''), (''degree'', ''MSc''), (''fieldofstudy'', ''Computing''),
                       (''from'', ''2014-09-01'')]"

definition alice :: profile where
  "alice = (blank_profile ''u1'')
     \<lparr>experience := [newExp ''e1'' engineer, newExp ''e2'' analyst],
      education := [newEdu ''s1'' bachelor]\<rparr>"

definition bob :: profile where
  "bob = (blank_profile ''u2'')\<lparr>experience := [newExp ''e7'' analyst]\<rparr>"

section \<open>Properties\<close>

subsection \<open>Store lemmas\<close>

lemma update_first_same:
  "find P xs = Some x \<Longrightarrow> update_first P (\<lambda>_. x) xs = xs"
  by (induction xs) (auto split: if_splits)

lemma find_update_first:
  "find P xs = Some x \<Longrightarrow> P (f x) \<Longrightarrow> find P (update_first P f xs) = Some (f x)"
  by (induction xs) (auto split: if_splits)

lemma update_first_twice:
  "find P xs = Some x \<Longrightarrow> P y \<Longrightarrow>
   update_first P (\<lambda>_. z) (update_first P (\<lambda>_. y) xs) = update_first P (\<lambda>_. z) xs"
  by (induction xs) (auto split: if_splits)

lemma findOne_user_user: "findOne_user uid db = Some p \<Longrightarrow> user p = uid"
  by (auto simp: findOne_user_def find_Some_iff)

lemma findOne_save:
  "findOne_user uid db = Some p \<Longrightarrow> user p' = uid \<Longrightarrow> findOne_user uid (save p' db) = Some p'"
  using find_update_first [of "\<lambda>q. user q = uid" db p "\<lambda>_. p'"]
  by (simp add: findOne_user_def save_def)

lemma save_found: "findOne_user uid db = Some p \<Longrightarrow> save p db = db"
  using update_first_same [of "\<lambda>q. user q = uid" db p] findOne_user_user [of uid db p]
  by (simp add: findOne_user_def save_def)

lemma save_save:
  "findOne_user uid db = Some p \<Longrightarrow> user p' = uid \<Longrightarrow> user p'' = uid \<Longrightarrow>
   save p'' (save p' db) = save p'' db"
  using update_first_twice [of "\<lambda>q. user q = uid" db p p' p'']
  by (simp add: findOne_user_def save_def)

subsection \<open>The sub-document handlers on an existing profile\<close>

lemma add_experience_ok:
  assumes "validate_experience isEmpty (body rq) = []"
    and "findOne_user (user_id rq) db = Some p"
  shows "add_experience isEmpty oid rq db =
           (Responded (Response 200
              (Profile_json (p\<lparr>experience := newExp oid (body rq) # experience p\<rparr>))),
            save (p\<lparr>experience := newExp oid (body rq) # experience p\<rparr>) db)"
  using assms by (simp add: add_experience_def Let_def)

lemma add_education_ok:
  assumes "validate_education isEmpty (body rq) = []"
    and "findOne_user (user_id rq) db = Some p"
  shows "add_education isEmpty oid rq db =
           (Responded (Response 200
              (Profile_json (p\<lparr>education := newEdu oid (body rq) # education p\<rparr>))),
            save (p\<lparr>education := newEdu oid (body rq) # education p\<rparr>) db)"
  using assms by (simp add: add_education_def Let_def)

lemma delete_experience_ok:
  assumes "findOne_user (user_id rq) db = Some p"
  shows "delete_experience rq db =
           (Responded (Response 200
              (Profile_json (p\<lparr>experience := filter (\<lambda>e. exp_id e \<noteq> param rq) (experience p)\<rparr>))),
            save (p\<lparr>experience := filter (\<lambda>e. exp_id e \<noteq> param rq) (experience p)\<rparr>) db)"
  using assms by (simp add: delete_experience_def Let_def)

lemma delete_education_ok:
  assumes "findOne_user (user_id rq) db = Some p"
  shows "delete_education rq db =
           (Responded (Response 200
              (Profile_json (p\<lparr>education := filter (\<lambda>e. edu_id e \<noteq> param rq) (education p)\<rparr>))),
            save (p\<lparr>education := filter (\<lambda>e. edu_id e \<noteq> param rq) (education p)\<rparr>) db)"
  using assms by (simp add: delete_education_def Let_def)

lemma findOne_save_experience:
  "findOne_user uid db = Some p \<Longrightarrow>
   findOne_user uid (save (p\<lparr>experience := xs\<rparr>) db) = Some (p\<lparr>experience := xs\<rparr>)"
  using findOne_save [of uid db p "p\<lparr>experience := xs\<rparr>"] findOne_user_user [of uid db p]
  by simp

lemma findOne_save_education:
  "findOne_user uid db = Some p \<Longrightarrow>
   findOne_user uid (save (p\<lparr>education := xs\<rparr>) db) = Some (p\<lparr>education := xs\<rparr>)"
  using findOne_save [of uid db p "p\<lparr>education := xs\<rparr>"] findOne_user_user [of uid db p]
  by simp

lemma filter_fresh: "\<forall>x\<in>set xs. f x \<noteq> i \<Longrightarrow> filter (\<lambda>x. f x \<noteq> i) xs = xs"
  by (induction xs) auto


lemma delete_experience_spec:
  assumes "findOne_user (user_id rq) db = Some p"
  shows "\<exists>p' db'. delete_experience rq db = (Responded (Response 200 (Profile_json p')), db') \<and>
           findOne_user (user_id rq) db' = Some p' \<and>
           p' = p\<lparr>experience := experience p'\<rparr> \<and>
           experience p' = filter (\<lambda>e. exp_id e \<noteq> param rq) (experience p) \<and>
           ((\<forall>e\<in>set (experience p). exp_id e \<noteq> param rq) \<longrightarrow>
              experience p' = experience p \<and> db' = db) \<and>
           delete_experience rq db' = (Responded (Response 200 (Profile_json p')), db')"
proof -
  let ?xs = "filter (\<lambda>e. exp_id e \<noteq> param rq) (experience p)"
  let ?p = "p\<lparr>experience := ?xs\<rparr>"
  have found: "findOne_user (user_id rq) (save ?p db) = Some ?p"
    using assms by (rule findOne_save_experience)
  have again: "delete_experience rq (save ?p db) =
      (Responded (Response 200 (Profile_json ?p)), save ?p db)"
    using delete_experience_ok [OF found] save_found [OF found] by simp
  have noop: "(\<forall>e\<in>set (experience p). exp_id e \<noteq> param rq) \<longrightarrow>
      ?xs = experience p \<and> save ?p db = db"
    using save_found [OF assms] by (simp add: filter_fresh)
  show ?thesis
    using delete_experience_ok [OF assms] found again noop
    by (intro exI [of _ ?p] exI [of _ "save ?p db"]) simp
qed

lemma delete_education_spec:
  assumes "findOne_user (user_id rq) db = Some p"
  shows "\<exists>p' db'. delete_education rq db = (Responded (Response 200 (Profile_json p')), db') \<and>
           findOne_user (user_id rq) db' = Some p' \<and>
           p' = p\<lparr>education := education p'\<rparr> \<and>
           education p' = filter (\<lambda>e. edu_id e \<noteq> param rq) (education p) \<and>
           ((\<forall>e\<in>set (education p). edu_id e \<noteq> param rq) \<longrightarrow>
              education p' = education p \<and> db' = db) \<and>
           delete_education rq db' = (Responded (Response 200 (Profile_json p')), db')"
proof -
  let ?xs = "filter (\<lambda>e. edu_id e \<noteq> param rq) (education p)"
  let ?p = "p\<lparr>education := ?xs\<rparr>"
  have found: "findOne_user (user_id rq) (save ?p db) = Some ?p"
    using assms by (rule findOne_save_education)
  have again: "delete_education rq (save ?p db) =
      (Responded (Response 200 (Profile_json ?p)), save ?p db)"
    using delete_education_ok [OF found] save_found [OF found] by simp
  have noop: "(\<forall>e\<in>set (education p). edu_id e \<noteq> param rq) \<longrightarrow>
      ?xs = education p \<and> save ?p db = db"
    using save_found [OF assms] by (simp add: filter_fresh)
  show ?thesis
    using delete_education_ok [OF assms] found again noop
    by (intro exI [of _ ?p] exI [of _ "save ?p db"]) simp
qed

lemma add_remove_experience:
  assumes "findOne_user (user_id rq) db = Some p"
    and "validate_experience isEmpty (body rq) = []"
    and "\<forall>e\<in>set (experience p). exp_id e \<noteq> oid"
  shows "\<exists>p1 db1. add_experience isEmpty oid rq db =
             (Responded (Response 200 (Profile_json p1)), db1) \<and>
           exp_id (hd (experience p1)) = oid \<and>
           delete_experience (rq\<lparr>param := oid\<rparr>) db1 =
             (Responded (Response 200 (Profile_json p)), db)"
proof -
  let ?p1 = "p\<lparr>experience := newExp oid (body rq) # experience p\<rparr>"
  have u: "user p = user_id rq"
    using assms(1) by (rule findOne_user_user)
  have found: "findOne_user (user_id (rq\<lparr>param := oid\<rparr>)) (save ?p1 db) = Some ?p1"
    using findOne_save_experience [OF assms(1)] by simp
  have restored: "?p1\<lparr>experience := filter (\<lambda>e. exp_id e \<noteq> oid) (experience ?p1)\<rparr> = p"
    using assms(3) by (simp add: filter_fresh newExp_def)
  have store: "save p (save ?p1 db) = db"
    using save_save [OF assms(1), of ?p1 p] save_found [OF assms(1)] u by simp
  have "delete_experience (rq\<lparr>param := oid\<rparr>) (save ?p1 db) =
      (Responded (Response 200 (Profile_json p)), db)"
    using delete_experience_ok [OF found] restored store by simp
  then show ?thesis
    using add_experience_ok [OF assms(2) assms(1), of oid]
    by (intro exI [of _ ?p1] exI [of _ "save ?p1 db"]) (simp add: newExp_def)
qed

lemma add_remove_education:
  assumes "findOne_user (user_id rq) db = Some p"
    and "validate_education isEmpty (body rq) = []"
    and "\<forall>e\<in>set (education p). edu_id e \<noteq> oid"
  shows "\<exists>p1 db1. add_education isEmpty oid rq db =
             (Responded (Response 200 (Profile_json p1)), db1) \<and>
           edu_id (hd (education p1)) = oid \<and>
           delete_education (rq\<lparr>param := oid\<rparr>) db1 =
             (Responded (Response 200 (Profile_json p)), db)"
proof -
  let ?p1 = "p\<lparr>education := newEdu oid (body rq) # education p\<rparr>"
  have u: "user p = user_id rq"
    using assms(1) by (rule findOne_user_user)
  have found: "findOne_user (user_id (rq\<lparr>param := oid\<rparr>)) (save ?p1 db) = Some ?p1"
    using findOne_save_education [OF assms(1)] by simp
  have restored: "?p1\<lparr>education := filter (\<lambda>e. edu_id e \<noteq> oid) (education ?p1)\<rparr> = p"
    using assms(3) by (simp add: filter_fresh newEdu_def)
  have store: "save p (save ?p1 db) = db"
    using save_save [OF assms(1), of ?p1 p] save_found [OF assms(1)] u by simp
  have "delete_education (rq\<lparr>param := oid\<rparr>) (save ?p1 db) =
      (Responded (Response 200 (Profile_json p)), db)"
    using delete_education_ok [OF found] restored store by simp
  then show ?thesis
    using add_education_ok [OF assms(2) assms(1), of oid]
    by (intro exI [of _ ?p1] exI [of _ "save ?p1 db"]) (simp add: newEdu_def)
qed

lemma add_twice_experience:
  assumes "findOne_user uid db = Some p"
    and "user_id rq1 = uid" and "user_id rq2 = uid"
    and "validate_experience isEmpty (body rq1) = []"
    and "validate_experience isEmpty (body rq2) = []"
  shows "\<exists>p1 db1 p2 db2.
           add_experience isEmpty oid1 rq1 db = (Responded (Response 200 (Profile_json p1)), db1) \<and>
           experience p1 = newExp oid1 (body rq1) # experience p \<and>
           add_experience isEmpty oid2 rq2 db1 = (Responded (Response 200 (Profile_json p2)), db2) \<and>
           experience p2 = newExp oid2 (body rq2) # newExp oid1 (body rq1) # experience p \<and>
           findOne_user uid db2 = Some p2"
proof -
  let ?p1 = "p\<lparr>experience := newExp oid1 (body rq1) # experience p\<rparr>"
  let ?p2 = "?p1\<lparr>experience := newExp oid2 (body rq2) # experience ?p1\<rparr>"
  have f0: "findOne_user (user_id rq1) db = Some p"
    using assms(1,2) by simp
  have f1: "findOne_user uid (save ?p1 db) = Some ?p1"
    using assms(1) by (rule findOne_save_experience)
  have f1': "findOne_user (user_id rq2) (save ?p1 db) = Some ?p1"
    using f1 assms(3) by simp
  have f2: "findOne_user uid (save ?p2 (save ?p1 db)) = Some ?p2"
    using f1 by (rule findOne_save_experience)
  show ?thesis
    using add_experience_ok [OF assms(4) f0, of oid1] add_experience_ok [OF assms(5) f1', of oid2] f2
    by (intro exI [of _ ?p1] exI [of _ "save ?p1 db"] exI [of _ ?p2]
          exI [of _ "save ?p2 (save ?p1 db)"]) simp
qed

lemma add_twice_education:
  assumes "findOne_user uid db = Some p"
    and "user_id rq1 = uid" and "user_id rq2 = uid"
    and "validate_education isEmpty (body rq1) = []"
    and "validate_education isEmpty (body rq2) = []"
  shows "\<exists>p1 db1 p2 db2.
           add_education isEmpty oid1 rq1 db = (Responded (Response 200 (Profile_json p1)), db1) \<and>
           education p1 = newEdu oid1 (body rq1) # education p \<and>
           add_education isEmpty oid2 rq2 db1 = (Responded (Response 200 (Profile_json p2)), db2) \<and>
           education p2 = newEdu oid2 (body rq2) # newEdu oid1 (body rq1) # education p \<and>
           findOne_user uid db2 = Some p2"
proof -
  let ?p1 = "p\<lparr>education := newEdu oid1 (body rq1) # education p\<rparr>"
  let ?p2 = "?p1\<lparr>education := newEdu oid2 (body rq2) # education ?p1\<rparr>"
  have f0: "findOne_user (user_id rq1) db = Some p"
    using assms(1,2) by simp
  have f1: "findOne_user uid (save ?p1 db) = Some ?p1"
    using assms(1) by (rule findOne_save_education)
  have f1': "findOne_user (user_id rq2) (save ?p1 db) = Some ?p1"
    using f1 assms(3) by simp
  have f2: "findOne_user uid (save ?p2 (save ?p1 db)) = Some ?p2"
    using f1 by (rule findOne_save_education)
  show ?thesis
    using add_education_ok [OF assms(4) f0, of oid1] add_education_ok [OF assms(5) f1', of oid2] f2
    by (intro exI [of _ ?p1] exI [of _ "save ?p1 db"] exI [of _ ?p2]
          exI [of _ "save ?p2 (save ?p1 db)"]) simp
qed

lemmas sample_defs = alice_def bob_def blank_profile_def newExp_def newEdu_def engineer_def
  analyst_def bachelor_def master_def text_body_def

lemmas validate_defs = validate_experience_def validate_education_def required_def check_from_def
  from_before_to_def js_lt_def

subsection \<open>Adding and removing sub-documents\<close>

text \<open>
  C5. Adding an entry whose generated identifier is fresh in the list and then removing by
  that identifier gives back the original list, contents and order: the delete handler
  answers with the original profile, and the collection is the one before the add. This
  holds for the experience list and for the education list.
\<close>

theorem add_then_remove:
  assumes "findOne_user (user_id rq1) db = Some p"
    and "user_id rq2 = user_id rq1"
    and "validate_experience isEmpty (body rq1) = []"
    and "validate_education isEmpty (body rq2) = []"
    and "\<forall>e\<in>set (experience p). exp_id e \<noteq> oid1"
    and "\<forall>e\<in>set (education p). edu_id e \<noteq> oid2"
  shows "(\<exists>p1 db1. add_experience isEmpty oid1 rq1 db =
              (Responded (Response 200 (Profile_json p1)), db1) \<and>
            exp_id (hd (experience p1)) = oid1 \<and>
            delete_experience (rq1\<lparr>param := oid1\<rparr>) db1 =
              (Responded (Response 200 (Profile_json p)), db)) \<and>
         (\<exists>p1 db1. add_education isEmpty oid2 rq2 db =
              (Responded (Response 200 (Profile_json p1)), db1) \<and>
            edu_id (hd (education p1)) = oid2 \<and>
            delete_education (rq2\<lparr>param := oid2\<rparr>) db1 =
              (Responded (Response 200 (Profile_json p)), db))"
proof -
  have found: "findOne_user (user_id rq2) db = Some p"
    using assms(1,2) by simp
  show ?thesis
    using add_remove_experience [OF assms(1) assms(3) assms(5)]
      add_remove_education [OF found assms(4) assms(6)]
    by (rule conjI)
qed

theorem add_then_remove_witness:
  "findOne_user ''u1'' [bob, alice] = Some alice \<and>
   validate_experience isEmpty_text engineer = [] \<and>
   validate_education isEmpty_text master = [] \<and>
   list_all (\<lambda>e. exp_id e \<noteq> ''e3'') (experience alice) \<and>
   list_all (\<lambda>e. edu_id e \<noteq> ''s2'') (education alice) \<and>
   delete_experience \<lparr>user_id = ''u1'', param = ''e3'', body = engineer\<rparr>
     (snd (add_experience isEmpty_text ''e3'' \<lparr>user_id = ''u1'', param = [], body = engineer\<rparr>
        [bob, alice])) =
     (Responded (Response 200 (Profile_json alice)), [bob, alice]) \<and>
   delete_education \<lparr>user_id = ''u1'', param = ''s2'', body = master\<rparr>
     (snd (add_education isEmpty_text ''s2'' \<lparr>user_id = ''u1'', param = [], body = master\<rparr>
        [bob, alice])) =
     (Responded (Response 200 (Profile_json alice)), [bob, alice])"
  using add_then_remove
    [of "\<lparr>user_id = ''u1'', param = [], body = engineer\<rparr>" "[bob, alice]" alice
        "\<lparr>user_id = ''u1'', param = [], body = master\<rparr>" isEmpty_text "''e3''" "''s2''"]
  by (simp add: findOne_user_def sample_defs validate_defs add_experience_def add_education_def
      delete_experience_def delete_education_def save_def Let_def)

text \<open>
  C6. An add puts the new entry at position 0 and leaves the entries that were there
  behind it, unchanged and in their order. After two adds, of E1 and then of E2, the list
  starts with E2, then E1, then the old list. This holds for experience and for education.
\<close>

theorem add_inserts_at_head:
  assumes "findOne_user uid db = Some p"
    and "user_id rq1 = uid" and "user_id rq2 = uid"
    and "user_id rq3 = uid" and "user_id rq4 = uid"
    and "validate_experience isEmpty (body rq1) = []"
    and "validate_experience isEmpty (body rq2) = []"
    and "validate_education isEmpty (body rq3) = []"
    and "validate_education isEmpty (body rq4) = []"
  shows "(\<exists>p1 db1 p2 db2.
            add_experience isEmpty oid1 rq1 db = (Responded (Response 200 (Profile_json p1)), db1) \<and>
            experience p1 = newExp oid1 (body rq1) # experience p \<and>
            add_experience isEmpty oid2 rq2 db1 = (Responded (Response 200 (Profile_json p2)), db2) \<and>
            experience p2 = newExp oid2 (body rq2) # newExp oid1 (body rq1) # experience p \<and>
            findOne_user uid db2 = Some p2) \<and>
         (\<exists>p1 db1 p2 db2.
            add_education isEmpty oid3 rq3 db = (Responded (Response 200 (Profile_json p1)), db1) \<and>
            education p1 = newEdu oid3 (body rq3) # education p \<and>
            add_education isEmpty oid4 rq4 db1 = (Responded (Response 200 (Profile_json p2)), db2) \<and>
            education p2 = newEdu oid4 (body rq4) # newEdu oid3 (body rq3) # education p \<and>
            findOne_user uid db2 = Some p2)"
  using add_twice_experience [OF assms(1) assms(2) assms(3) assms(6) assms(7)]
    add_twice_education [OF assms(1) assms(4) assms(5) assms(8) assms(9)]
  by (rule conjI)

theorem add_inserts_at_head_witness:
  "findOne_user ''u1'' [bob, alice] = Some alice \<and>
   validate_experience isEmpty_text engineer = [] \<and>
   validate_experience isEmpty_text analyst = [] \<and>
   validate_education isEmpty_text master = [] \<and>
   validate_education isEmpty_text bachelor = [] \<and>
   add_experience isEmpty_text ''e4'' \<lparr>user_id = ''u1'', param = [], body = analyst\<rparr>
     (snd (add_experience isEmpty_text ''e3'' \<lparr>user_id = ''u1'', param = [], body = engineer\<rparr>
        [bob, alice])) =
     (Responded (Response 200 (Profile_json
        (alice\<lparr>experience := newExp ''e4'' analyst # newExp ''e3'' engineer # experience alice\<rparr>))),
      [bob, alice\<lparr>experience := newExp ''e4'' analyst # newExp ''e3'' engineer # experience alice\<rparr>]) \<and>
   add_education isEmpty_text ''s3'' \<lparr>user_id = ''u1'', param = [], body = bachelor\<rparr>
     (snd (add_education isEmpty_text ''s2'' \<lparr>user_id = ''u1'', param = [], body = master\<rparr>
        [bob, alice])) =
     (Responded (Response 200 (Profile_json
        (alice\<lparr>education := newEdu ''s3'' bachelor # newEdu ''s2'' master # education alice\<rparr>))),
      [bob, alice\<lparr>education := newEdu ''s3'' bachelor # newEdu ''s2'' master # education alice\<rparr>])"
  using add_inserts_at_head
    [of "''u1''" "[bob, alice]" alice
        "\<lparr>user_id = ''u1'', param = [], body = engineer\<rparr>"
        "\<lparr>user_id = ''u1'', param = [], body = analyst\<rparr>"
        "\<lparr>user_id = ''u1'', param = [], body = master\<rparr>"
        "\<lparr>user_id = ''u1'', param = [], body = bachelor\<rparr>"
        isEmpty_text "''e3''" "''e4''" "''s2''" "''s3''"]
  by (simp add: findOne_user_def sample_defs validate_defs add_experience_def add_education_def
      save_def Let_def)

text \<open>
  C7. Removing by identifier keeps exactly the entries whose identifier differs from the
  given one, in their order, and changes nothing else of the profile. When no entry has the
  identifier, the list and the collection are unchanged; the handler answers 200 in both
  cases, and repeating the request gives the same answer and collection. This holds for
  experience and for education.
\<close>

theorem remove_by_identifier:
  assumes "findOne_user (user_id rq) db = Some p"
  shows "(\<exists>p' db'. delete_experience rq db = (Responded (Response 200 (Profile_json p')), db') \<and>
            findOne_user (user_id rq) db' = Some p' \<and>
            p' = p\<lparr>experience := experience p'\<rparr> \<and>
            experience p' = filter (\<lambda>e. exp_id e \<noteq> param rq) (experience p) \<and>
            ((\<forall>e\<in>set (experience p). exp_id e \<noteq> param rq) \<longrightarrow>
               experience p' = experience p \<and> db' = db) \<and>
            delete_experience rq db' = (Responded (Response 200 (Profile_json p')), db')) \<and>
         (\<exists>p' db'. delete_education rq db = (Responded (Response 200 (Profile_json p')), db') \<and>
            findOne_user (user_id rq) db' = Some p' \<and>
            p' = p\<lparr>education := education p'\<rparr> \<and>
            education p' = filter (\<lambda>e. edu_id e \<noteq> param rq) (education p) \<and>
            ((\<forall>e\<in>set (education p). edu_id e \<noteq> param rq) \<longrightarrow>
               education p' = education p \<and> db' = db) \<and>
            delete_education rq db' = (Responded (Response 200 (Profile_json p')), db'))"
  using delete_experience_spec [OF assms] delete_education_spec [OF assms]
  by (rule conjI)

theorem remove_by_identifier_witness:
  "findOne_user ''u1'' [bob, alice] = Some alice \<and>
   list_all (\<lambda>e. edu_id e \<noteq> ''e1'') (education alice) \<and>
   delete_experience \<lparr>user_id = ''u1'', param = ''e1'', body = \<lambda>_. Undefined\<rparr> [bob, alice] =
     (Responded (Response 200 (Profile_json (alice\<lparr>experience := [newExp ''e2'' analyst]\<rparr>))),
      [bob, alice\<lparr>experience := [newExp ''e2'' analyst]\<rparr>]) \<and>
   delete_education \<lparr>user_id = ''u1'', param = ''e1'', body = \<lambda>_. Undefined\<rparr> [bob, alice] =
     (Responded (Response 200 (Profile_json alice)), [bob, alice])"
  using remove_by_identifier
    [of "\<lparr>user_id = ''u1'', param = ''e1'', body = \<lambda>_. Undefined\<rparr>" "[bob, alice]" alice]
  by (simp add: findOne_user_def sample_defs delete_experience_def delete_education_def
      save_def Let_def)

subsection \<open>Updating an experience entry\<close>

lemma update_first_split:
  "list_ex P xs \<Longrightarrow>
   \<exists>as x bs. xs = as @ x # bs \<and> (\<forall>a\<in>set as. \<not> P a) \<and> P x \<and>
     update_first P f xs = as @ f x # bs"
proof (induction xs)
  case Nil
  then show ?case by simp
next
  case (Cons y ys)
  show ?case
  proof (cases "P y")
    case True
    then show ?thesis
      by (intro exI [of _ "[]"] exI [of _ y] exI [of _ ys]) simp
  next
    case False
    with Cons.prems have "list_ex P ys" by simp
    from Cons.IH [OF this] obtain as x bs where
      "ys = as @ x # bs" "\<forall>a\<in>set as. \<not> P a" "P x" "update_first P f ys = as @ f x # bs"
      by blast
    with False show ?thesis
      by (intro exI [of _ "y # as"] exI [of _ x] exI [of _ bs]) simp
  qed
qed

lemma find_list_ex: "list_ex P xs \<Longrightarrow> \<exists>x. find P xs = Some x \<and> P x \<and> x \<in> set xs"
  by (induction xs) auto

lemma patch_experience_all: "patch_experience b e = newExp (exp_id e) b"
  by (simp add: patch_experience_def newExp_def)

lemma update_experience_ok:
  assumes "find (has_experience (param rq)) db = Some q"
  shows "update_experience rq db =
     (Responded (Response 200 (Profile_json
        (q\<lparr>experience := update_first (\<lambda>e. exp_id e = param rq) (patch_experience (body rq))
                            (experience q)\<rparr>))),
      update_first (has_experience (param rq))
        (\<lambda>_. q\<lparr>experience := update_first (\<lambda>e. exp_id e = param rq)
                                  (patch_experience (body rq)) (experience q)\<rparr>) db)"
  using assms by (simp add: update_experience_def Let_def)

lemma update_experience_any_caller:
  "update_experience (rq\<lparr>user_id := uid\<rparr>) db = update_experience rq db"
  by (simp add: update_experience_def Let_def split: option.splits)

text \<open>
  C3. The update handler looks for the entry identifier in the whole collection: the
  profile it changes is the first one, of any owner, whose experience list has an entry
  with that identifier, and the caller's identity has no influence on the outcome. In that
  profile the first entry with the identifier gets the seven fields of the body and keeps
  its identifier and position; the entries around it are unchanged.
\<close>

theorem update_experience_unscoped:
  assumes "p \<in> set db" and "e \<in> set (experience p)" and "exp_id e = param rq"
  shows "\<exists>q q'. q \<in> set db \<and> find (has_experience (param rq)) db = Some q \<and>
           (\<exists>as x bs. experience q = as @ x # bs \<and> list_all (\<lambda>a. exp_id a \<noteq> param rq) as \<and>
              exp_id x = param rq \<and>
              q' = q\<lparr>experience := as @ newExp (param rq) (body rq) # bs\<rparr>) \<and>
           update_experience rq db =
             (Responded (Response 200 (Profile_json q')),
              update_first (has_experience (param rq)) (\<lambda>_. q') db) \<and>
           (\<forall>uid. update_experience (rq\<lparr>user_id := uid\<rparr>) db = update_experience rq db)"
proof -
  have "has_experience (param rq) p"
    using assms(2,3) by (auto simp: has_experience_def list_ex_iff)
  with assms(1) have "list_ex (has_experience (param rq)) db"
    by (auto simp: list_ex_iff)
  from find_list_ex [OF this] obtain q where
    q: "find (has_experience (param rq)) db = Some q" "has_experience (param rq) q" "q \<in> set db"
    by blast
  let ?P = "\<lambda>e. exp_id e = param rq"
  let ?q' = "q\<lparr>experience := update_first ?P (patch_experience (body rq)) (experience q)\<rparr>"
  from q(2) have "list_ex ?P (experience q)"
    by (simp add: has_experience_def)
  from update_first_split [OF this, of "patch_experience (body rq)"] obtain as x bs where
    s: "experience q = as @ x # bs" "\<forall>a\<in>set as. exp_id a \<noteq> param rq" "exp_id x = param rq"
      "update_first ?P (patch_experience (body rq)) (experience q) =
         as @ patch_experience (body rq) x # bs"
    by blast
  have "\<exists>as x bs. experience q = as @ x # bs \<and> list_all (\<lambda>a. exp_id a \<noteq> param rq) as \<and>
      exp_id x = param rq \<and> ?q' = q\<lparr>experience := as @ newExp (param rq) (body rq) # bs\<rparr>"
    using s by (intro exI [of _ as] exI [of _ x] exI [of _ bs])
      (simp add: patch_experience_all list_all_iff)
  then show ?thesis
    using q(1,3) update_experience_ok [OF q(1)] update_experience_any_caller
    by (intro exI [of _ q] exI [of _ ?q']) simp
qed

theorem update_experience_unscoped_witness:
  "bob \<in> set [alice, bob] \<and> newExp ''e7'' analyst \<in> set (experience bob) \<and>
   exp_id (newExp ''e7'' analyst) = ''e7'' \<and> user bob \<noteq> ''u1'' \<and>
   update_experience \<lparr>user_id = ''u1'', param = ''e7'', body = engineer\<rparr> [alice, bob] =
     (Responded (Response 200 (Profile_json (bob\<lparr>experience := [newExp ''e7'' engineer]\<rparr>))),
      [alice, bob\<lparr>experience := [newExp ''e7'' engineer]\<rparr>])"
  using update_experience_unscoped
    [of bob "[alice, bob]" "newExp ''e7'' analyst"
        "\<lparr>user_id = ''u1'', param = ''e7'', body = engineer\<rparr>"]
  by (simp add: sample_defs update_experience_def has_experience_def patch_experience_def Let_def)

text \<open>
  C4. When no entry of any profile has the identifier, the update handler answers 200
  with \<^verbatim>\<open>null\<close> as the body and leaves the collection as it is: here for the identifier
  \<^verbatim>\<open>e9\<close>, which no entry has.
\<close>

theorem update_experience_unknown_id:
  "update_experience \<lparr>user_id = ''u1'', param = ''e9'', body = engineer\<rparr> [alice, bob] =
     (Responded (Response 200 Null_json), [alice, bob])"
  by (simp add: sample_defs update_experience_def has_experience_def)

text \<open>
  C2. For an identity without a profile (\<^verbatim>\<open>u3\<close>) and a valid entry, the add handler
  answers 500 "Server Error" and leaves the collection as it is, where the handler of
  \<^verbatim>\<open>GET api/profile/me\<close> answers 400 "There is no profile for this user".
\<close>

theorem add_experience_without_profile:
  "findOne_user ''u3'' [alice, bob] = None \<and>
   add_experience isEmpty_text ''e3'' \<lparr>user_id = ''u3'', param = [], body = engineer\<rparr> [alice, bob] =
     (Responded (Response 500 (Text ''Server Error'')), [alice, bob]) \<and>
   get_me \<lparr>user_id = ''u3'', param = [], body = \<lambda>_. Undefined\<rparr> [alice, bob] =
     Responded (Response 400 (Errors_json [''There is no profile for this user'']))"
  by (simp add: sample_defs findOne_user_def add_experience_def validate_defs get_me_def)

subsection \<open>The repository lookup\<close>

lemma get_github_cases:
  "get_github cfg enc http rq = Responded (Response 404 (Msg_json ''No Github profile found'')) \<or>
   (\<exists>d. get_github cfg enc http rq = Responded (Response 200 (Data_json d)))"
  by (simp add: get_github_def split: sum.splits)

lemma get_github_failure:
  assumes "cfg ''githubClientId'' = Inl e \<or>
     (\<exists>cid. cfg ''githubClientId'' = Inr cid \<and>
        (cfg ''githubSecret'' = Inl e \<or>
         (\<exists>sec. cfg ''githubSecret'' = Inr sec \<and>
            (enc (github_uri (param rq) cid sec) = Inl e \<or>
             (\<exists>uri. enc (github_uri (param rq) cid sec) = Inr uri \<and> http uri = Inl e)))))"
  shows "get_github cfg enc http rq =
     Responded (Response 404 (Msg_json ''No Github profile found''))"
  using assms by (auto simp: get_github_def and_then_def)

lemma get_github_success:
  assumes "cfg ''githubClientId'' = Inr cid" and "cfg ''githubSecret'' = Inr sec"
    and "enc (github_uri (param rq) cid sec) = Inr uri" and "http uri = Inr d"
  shows "get_github cfg enc http rq = Responded (Response 200 (Data_json d))"
  using assms by (simp add: get_github_def and_then_def)

lemma get_me_missing:
  "findOne_user (user_id rq) db = None \<Longrightarrow>
   get_me rq db = Responded (Response 400 (Errors_json [''There is no profile for this user'']))"
  by (simp add: get_me_def)

text \<open>
  C9, as the code has it. Whatever throws in the lookup (reading the two credentials from
  the configuration, encoding the address, or the request itself, which throws on a network
  error and on a status outside 2xx such as the one for an unknown handle or for the rate
  limit) and with whatever exception, the handler gives one and the same answer, 404
  "No Github profile found". It differs from the answer for a missing profile, which is
  400 "There is no profile for this user". A body that the request returns is sent with
  200 as it is, whatever it holds.
\<close>

theorem enrichment_unavailable_on_exception:
  assumes "cfg ''githubClientId'' = Inl e \<or>
     (\<exists>cid. cfg ''githubClientId'' = Inr cid \<and>
        (cfg ''githubSecret'' = Inl e \<or>
         (\<exists>sec. cfg ''githubSecret'' = Inr sec \<and>
            (enc (github_uri (param rq) cid sec) = Inl e \<or>
             (\<exists>uri. enc (github_uri (param rq) cid sec) = Inr uri \<and> http uri = Inl e)))))"
    and "findOne_user (user_id rq') db = None"
  shows "get_github cfg enc http rq =
           Responded (Response 404 (Msg_json ''No Github profile found'')) \<and>
         get_me rq' db =
           Responded (Response 400 (Errors_json [''There is no profile for this user''])) \<and>
         get_github cfg enc http rq \<noteq> get_me rq' db \<and>
         (\<forall>cfg' enc' http' cid sec uri d.
            cfg' ''githubClientId'' = Inr cid \<and> cfg' ''githubSecret'' = Inr sec \<and>
            enc' (github_uri (param rq) cid sec) = Inr uri \<and> http' uri = Inr d \<longrightarrow>
            get_github cfg' enc' http' rq = Responded (Response 200 (Data_json d)))"
proof -
  have "\<forall>cfg' enc' http' cid sec uri d.
      cfg' ''githubClientId'' = Inr cid \<and> cfg' ''githubSecret'' = Inr sec \<and>
      enc' (github_uri (param rq) cid sec) = Inr uri \<and> http' uri = Inr d \<longrightarrow>
      get_github cfg' enc' http' rq = Responded (Response 200 (Data_json d))"
    by (simp add: get_github_success)
  then show ?thesis
    using get_github_failure [OF assms(1)] get_me_missing [OF assms(2)] by simp
qed

theorem enrichment_unavailable_on_exception_witness:
  "(\<lambda>_. Inr ''secret'' :: exn + string) ''githubClientId'' = Inr ''secret'' \<and>
   (\<lambda>_. Inr ''secret'' :: exn + string) ''githubSecret'' = Inr ''secret'' \<and>
   (Inr :: string \<Rightarrow> exn + string) (github_uri ''nobody'' ''secret'' ''secret'') =
     Inr (github_uri ''nobody'' ''secret'' ''secret'') \<and>
   (\<lambda>_. Inl LibraryError :: exn + string) (github_uri ''nobody'' ''secret'' ''secret'') =
     Inl LibraryError \<and>
   findOne_user ''u3'' [alice, bob] = None \<and>
   get_github (\<lambda>_. Inr ''secret'') Inr (\<lambda>_. Inl LibraryError)
     \<lparr>user_id = [], param = ''nobody'', body = \<lambda>_. Undefined\<rparr> =
     Responded (Response 404 (Msg_json ''No Github profile found'')) \<and>
   get_me \<lparr>user_id = ''u3'', param = [], body = \<lambda>_. Undefined\<rparr> [alice, bob] =
     Responded (Response 400 (Errors_json [''There is no profile for this user''])) \<and>
   get_github (\<lambda>_. Inr ''secret'') Inr (\<lambda>_. Inr ''[]'')
     \<lparr>user_id = [], param = ''nobody'', body = \<lambda>_. Undefined\<rparr> =
     Responded (Response 200 (Data_json ''[]''))"
proof -
  let ?rq = "\<lparr>user_id = [], param = ''nobody'', body = \<lambda>_. Undefined\<rparr>"
  let ?me = "\<lparr>user_id = ''u3'', param = [], body = \<lambda>_. Undefined\<rparr>"
  have h1: "(\<lambda>_. Inr ''secret'' :: exn + string) ''githubClientId'' = Inl LibraryError \<or>
     (\<exists>cid. (\<lambda>_. Inr ''secret'' :: exn + string) ''githubClientId'' = Inr cid \<and>
        ((\<lambda>_. Inr ''secret'' :: exn + string) ''githubSecret'' = Inl LibraryError \<or>
         (\<exists>sec. (\<lambda>_. Inr ''secret'' :: exn + string) ''githubSecret'' = Inr sec \<and>
            ((Inr :: string \<Rightarrow> exn + string) (github_uri (param ?rq) cid sec) = Inl LibraryError \<or>
             (\<exists>uri. (Inr :: string \<Rightarrow> exn + string) (github_uri (param ?rq) cid sec) = Inr uri \<and>
                (\<lambda>_. Inl LibraryError :: exn + string) uri = Inl LibraryError)))))"
    by simp
  have h2: "findOne_user (user_id ?me) [alice, bob] = None"
    by (simp add: findOne_user_def sample_defs)
  note t = enrichment_unavailable_on_exception [OF h1 h2]
  have a: "get_github (\<lambda>_. Inr ''secret'') Inr (\<lambda>_. Inl LibraryError) ?rq =
      Responded (Response 404 (Msg_json ''No Github profile found''))"
    using t by (rule conjunct1)
  have b: "get_me ?me [alice, bob] =
      Responded (Response 400 (Errors_json [''There is no profile for this user'']))"
    using t by (rule conjunct2 [THEN conjunct1])
  have "\<forall>cfg' enc' http' cid sec uri d.
      cfg' ''githubClientId'' = Inr cid \<and> cfg' ''githubSecret'' = Inr sec \<and>
      enc' (github_uri (param ?rq) cid sec) = Inr uri \<and> http' uri = Inr d \<longrightarrow>
      get_github cfg' enc' http' ?rq = Responded (Response 200 (Data_json d))"
    using t by (rule conjunct2 [THEN conjunct2, THEN conjunct2])
  then have c: "get_github (\<lambda>_. Inr ''secret'') Inr (\<lambda>_. Inr ''[]'') ?rq =
      Responded (Response 200 (Data_json ''[]''))"
    by simp
  from a b c h2 show ?thesis
    by simp
qed

text \<open>
  C9 as stated fails for a malformed response: the handler sends what the request returns
  and does not look at it. When the request returns the body
  \<^verbatim>\<open><html>Bad gateway</html>\<close>, which is not a sequence of repositories, the answer is 200
  with that body and not the 404 of the failures.
\<close>

theorem malformed_response_answered_200:
  "\<not> json_array_text ''<html>Bad gateway</html>'' \<and>
   get_github (\<lambda>_. Inr ''secret'') Inr (\<lambda>_. Inr ''<html>Bad gateway</html>'')
     \<lparr>user_id = [], param = ''octocat'', body = \<lambda>_. Undefined\<rparr> =
     Responded (Response 200 (Data_json ''<html>Bad gateway</html>'')) \<and>
   get_github (\<lambda>_. Inr ''secret'') Inr (\<lambda>_. Inr ''<html>Bad gateway</html>'')
     \<lparr>user_id = [], param = ''octocat'', body = \<lambda>_. Undefined\<rparr> \<noteq>
     Responded (Response 404 (Msg_json ''No Github profile found''))"
  by (simp add: json_array_text_def trim_def is_ws_def get_github_def and_then_def)

subsection \<open>Creating and updating a profile\<close>

lemma build_profile_fields_website:
  assumes "normalize_website n (b ''website'') = Inl e"
  shows "build_profile_fields n uid b = Inl e"
  using assms by (simp add: build_profile_fields_def and_then_def)

text \<open>
  C10. A request that passes validation and has no \<^verbatim>\<open>website\<close> field hands \<^verbatim>\<open>undefined\<close>
  to the URL normalizer. When the normalizer throws on \<^verbatim>\<open>undefined\<close>, the exception escapes
  the handler: nothing is sent and the collection is not touched. Only the empty string
  skips the normalizer; every other value of the field goes through it.
\<close>

theorem upsert_missing_website_throws:
  assumes "validate_profile isEmpty (body rq) = []"
    and "body rq ''website'' = Undefined"
    and "normalizeUrl Undefined = Inl e"
  shows "upsert_profile isEmpty normalizeUrl rq db = (Uncaught e, db) \<and>
         normalize_website normalizeUrl (Str []) = Inr (Str []) \<and>
         (\<forall>w. w \<noteq> Str [] \<longrightarrow>
            normalize_website normalizeUrl w =
              (case normalizeUrl w of Inl x \<Rightarrow> Inl x | Inr u \<Rightarrow> Inr (Str u)))"
proof -
  have "normalize_website normalizeUrl (body rq ''website'') = Inl e"
    using assms(2,3) by (simp add: normalize_website_def)
  then have "build_profile_fields normalizeUrl (user_id rq) (body rq) = Inl e"
    by (rule build_profile_fields_website)
  then show ?thesis
    using assms(1) by (simp add: upsert_profile_def normalize_website_def)
qed

theorem upsert_missing_website_throws_witness:
  "validate_profile isEmpty_text (text_body [(''status'', ''Developer''), (''skills'', ''js, css'')]) = [] \<and>
   text_body [(''status'', ''Developer''), (''skills'', ''js, css'')] ''website'' = Undefined \<and>
   (\<lambda>v. case v of Str s \<Rightarrow> Inr s | _ \<Rightarrow> Inl TypeError) Undefined = Inl TypeError \<and>
   upsert_profile isEmpty_text (\<lambda>v. case v of Str s \<Rightarrow> Inr s | _ \<Rightarrow> Inl TypeError)
     \<lparr>user_id = ''u3'', param = [],
      body = text_body [(''status'', ''Developer''), (''skills'', ''js, css'')]\<rparr> [alice, bob] =
     (Uncaught TypeError, [alice, bob])"
  using upsert_missing_website_throws
    [of isEmpty_text
        "\<lparr>user_id = ''u3'', param = [],
          body = text_body [(''status'', ''Developer''), (''skills'', ''js, css'')]\<rparr>"
        "\<lambda>v. case v of Str s \<Rightarrow> Inr s | _ \<Rightarrow> Inl TypeError" TypeError "[alice, bob]"]
  by (simp add: validate_profile_def required_def text_body_def)

subsection \<open>Skills of a profile\<close>

text \<open>
  What \<open>trim\<close> and \<open>split_comma\<close> compute: \<open>trim\<close> takes white space off both ends and
  nothing else; the fragments of \<open>split_comma\<close> have no comma and give the string back when
  joined with commas.
\<close>

lemma last_dropWhile: "dropWhile P xs \<noteq> [] \<Longrightarrow> last (dropWhile P xs) = last xs"
  by (induction xs) (auto split: if_splits)

lemma trim_ends: "trim s = [] \<or> (\<not> is_ws (hd (trim s)) \<and> \<not> is_ws (last (trim s)))"
proof (cases "trim s = []")
  case True
  then show ?thesis by simp
next
  case False
  let ?u = "dropWhile is_ws s"
  let ?v = "dropWhile is_ws (rev ?u)"
  have v: "?v \<noteq> []"
    using False by (simp add: trim_def)
  have u: "?u \<noteq> []"
  proof
    assume "?u = []"
    then have "?v = []" by (simp only: rev.simps(1) dropWhile.simps(1))
    with v show False by simp
  qed
  have "\<not> is_ws (hd ?v)"
    using v by (rule hd_dropWhile)
  then have l: "\<not> is_ws (last (trim s))"
    using v by (simp add: trim_def last_rev)
  have "last ?v = last (rev ?u)"
    using v by (rule last_dropWhile)
  then have "hd (trim s) = hd ?u"
    using v u by (simp add: trim_def hd_rev last_rev)
  moreover have "\<not> is_ws (hd ?u)"
    using u by (rule hd_dropWhile)
  ultimately show ?thesis
    using l by simp
qed

lemma trim_decomp:
  "\<exists>a b. s = a @ trim s @ b \<and> list_all is_ws a \<and> list_all is_ws b"
proof -
  let ?u = "dropWhile is_ws s"
  let ?t = "takeWhile is_ws (rev ?u)"
  have "rev (dropWhile is_ws (rev ?u)) @ rev ?t = rev (?t @ dropWhile is_ws (rev ?u))"
    by (simp only: rev_append)
  also have "\<dots> = rev (rev ?u)"
    by (simp only: takeWhile_dropWhile_id)
  finally have "?u = trim s @ rev ?t"
    by (simp add: trim_def)
  moreover have "s = takeWhile is_ws s @ ?u"
    by simp
  ultimately have "s = takeWhile is_ws s @ trim s @ rev ?t"
    by simp
  moreover have "list_all is_ws (takeWhile is_ws s)"
    by (auto simp: list_all_iff dest: set_takeWhileD)
  moreover have "list_all is_ws (rev ?t)"
    by (auto simp: list_all_iff dest: set_takeWhileD)
  ultimately show ?thesis
    by blast
qed

lemma split_comma_nonempty: "split_comma t \<noteq> []"
  by (induction t) (auto split: list.splits)

lemma join_comma_Cons: "join_comma ((c # f) # fs) = c # join_comma (f # fs)"
  by (cases fs) simp_all

lemma join_comma_Nil_Cons: "fs \<noteq> [] \<Longrightarrow> join_comma ([] # fs) = CHR '','' # join_comma fs"
  by (cases fs) simp_all

lemma join_split_comma: "join_comma (split_comma t) = t"
proof (induction t)
  case Nil
  show ?case by simp
next
  case (Cons c cs)
  show ?case
  proof (cases "c = CHR '',''")
    case True
    then show ?thesis
      using Cons.IH by (simp add: join_comma_Nil_Cons split_comma_nonempty)
  next
    case False
    obtain f fs where "split_comma cs = f # fs"
      using split_comma_nonempty [of cs] by (cases "split_comma cs") auto
    then show ?thesis
      using False Cons.IH by (simp add: join_comma_Cons)
  qed
qed

lemma split_comma_no_comma: "list_all (\<lambda>f. CHR '','' \<notin> set f) (split_comma t)"
  by (induction t) (auto split: list.splits)

lemma build_profile_fields_skills:
  assumes "build_profile_fields n uid b = Inr f"
  shows "normalize_skills (b ''skills'') = Inr (skills f) \<and> user f = uid"
  using assms
  by (auto simp: build_profile_fields_def and_then_def split: sum.splits)

lemma find_append_new:
  "find P xs = None \<Longrightarrow> P x \<Longrightarrow> find P (xs @ [x]) = Some x"
  by (induction xs) (auto split: if_splits)

lemma upsert_profile_ok:
  assumes "upsert_profile isEmpty n rq db = (Responded (Response 200 (Profile_json p)), db')"
  shows "\<exists>f. build_profile_fields n (user_id rq) (body rq) = Inr f \<and> skills p = skills f \<and>
           findOne_user (user_id rq) db' = Some p"
proof -
  have v: "validate_profile isEmpty (body rq) = []"
    using assms by (auto simp: upsert_profile_def Let_def split: if_splits)
  obtain f where f: "build_profile_fields n (user_id rq) (body rq) = Inr f"
    using assms v by (auto simp: upsert_profile_def split: sum.splits)
  have uf: "user f = user_id rq"
    using build_profile_fields_skills [OF f] by simp
  show ?thesis
  proof (cases "findOne_user (user_id rq) db")
    case None
    then have "p = f" and "db' = db @ [f]"
      using assms v f by (auto simp: upsert_profile_def)
    then show ?thesis
      using f uf None find_append_new [of "\<lambda>q. user q = user_id rq" db f]
      by (simp add: findOne_user_def)
  next
    case (Some q)
    let ?p = "f\<lparr>experience := experience q, education := education q\<rparr>"
    have "p = ?p" and "db' = save ?p db"
      using assms v f Some by (auto simp: upsert_profile_def Let_def)
    then show ?thesis
      using f uf findOne_save [OF Some, of ?p] by simp
  qed
qed

text \<open>
  C1, as the code has it. When the upsert answers with a profile, that profile is the one
  stored for the caller. For a comma-delimited string its skills are the fragments between
  the commas, each with the white space at its ends removed and then one space put in
  front. For a sequence the skills are the sequence as it was supplied.
\<close>

theorem skills_normalization:
  assumes "upsert_profile isEmpty normalizeUrl rq db =
             (Responded (Response 200 (Profile_json p)), db')"
  shows "findOne_user (user_id rq) db' = Some p \<and>
         (\<forall>t. body rq ''skills'' = Str t \<longrightarrow>
            skills p = Arr (map (\<lambda>skill. '' '' @ trim skill) (split_comma t))) \<and>
         (\<forall>xs. body rq ''skills'' = Arr xs \<longrightarrow> skills p = Arr xs)"
proof -
  from upsert_profile_ok [OF assms] obtain f where
    f: "build_profile_fields normalizeUrl (user_id rq) (body rq) = Inr f"
      "skills p = skills f" "findOne_user (user_id rq) db' = Some p"
    by blast
  have "normalize_skills (body rq ''skills'') = Inr (skills p)"
    using build_profile_fields_skills [OF f(1)] f(2) by simp
  then show ?thesis
    using f(3) by (auto simp: normalize_skills_def)
qed

theorem skills_normalization_witness:
  "upsert_profile isEmpty_text (\<lambda>_. Inl LibraryError)
     \<lparr>user_id = ''u3'', param = [],
      body = text_body [(''status'', ''Developer''), (''skills'', ''js, css''), (''website'', [])]\<rparr>
     [alice, bob] =
     (Responded (Response 200 (Profile_json
        ((blank_profile ''u3'')\<lparr>website := Str [], skills := Arr ['' js'', '' css''],
                                  status := Str ''Developer''\<rparr>))),
      [alice, bob,
       (blank_profile ''u3'')\<lparr>website := Str [], skills := Arr ['' js'', '' css''],
                                status := Str ''Developer''\<rparr>]) \<and>
   skills ((blank_profile ''u3'')\<lparr>website := Str [], skills := Arr ['' js'', '' css''],
                                   status := Str ''Developer''\<rparr>) =
     Arr (map (\<lambda>skill. '' '' @ trim skill) (split_comma ''js, css''))"
  using skills_normalization
    [of isEmpty_text "\<lambda>_. Inl LibraryError"
        "\<lparr>user_id = ''u3'', param = [],
          body = text_body [(''status'', ''Developer''), (''skills'', ''js, css''), (''website'', [])]\<rparr>"
        "[alice, bob]"
        "(blank_profile ''u3'')\<lparr>website := Str [], skills := Arr ['' js'', '' css''],
                                  status := Str ''Developer''\<rparr>"
        "[alice, bob,
          (blank_profile ''u3'')\<lparr>website := Str [], skills := Arr ['' js'', '' css''],
                                   status := Str ''Developer''\<rparr>]"]
  by (simp add: upsert_profile_def validate_profile_def required_def build_profile_fields_def
      and_then_def normalize_website_def normalize_skills_def normalize_social_def trim_def
      is_ws_def findOne_user_def sample_defs)

text \<open>
  C1 as stated fails: the skills string \<^verbatim>\<open>a, b ,c\<close> is stored as \<^verbatim>\<open>[" a"," b"," c"]\<close>,
  not as \<^verbatim>\<open>["a","b","c"]\<close>; and the sequence \<^verbatim>\<open>[" x ", ""]\<close> is stored as it is, with an
  element that is not trimmed and one that is empty.
\<close>

theorem skills_keep_leading_space:
  "upsert_profile isEmpty_text (\<lambda>_. Inl LibraryError)
     \<lparr>user_id = ''u3'', param = [],
      body = text_body [(''status'', ''Developer''), (''skills'', ''a, b ,c''), (''website'', [])]\<rparr>
     [] =
     (Responded (Response 200 (Profile_json
        ((blank_profile ''u3'')\<lparr>website := Str [], skills := Arr ['' a'', '' b'', '' c''],
                                  status := Str ''Developer''\<rparr>))),
      [(blank_profile ''u3'')\<lparr>website := Str [], skills := Arr ['' a'', '' b'', '' c''],
                               status := Str ''Developer''\<rparr>]) \<and>
   Arr ['' a'', '' b'', '' c''] \<noteq> Arr [''a'', ''b'', ''c''] \<and>
   upsert_profile isEmpty_text (\<lambda>_. Inl LibraryError)
     \<lparr>user_id = ''u3'', param = [],
      body = (text_body [(''status'', ''Developer''), (''website'', [])])
               (''skills'' := Arr ['' x '', []])\<rparr>
     [] =
     (Responded (Response 200 (Profile_json
        ((blank_profile ''u3'')\<lparr>website := Str [], skills := Arr ['' x '', []],
                                  status := Str ''Developer''\<rparr>))),
      [(blank_profile ''u3'')\<lparr>website := Str [], skills := Arr ['' x '', []],
                               status := Str ''Developer''\<rparr>]) \<and>
   trim '' x '' \<noteq> '' x ''"
  by (simp add: upsert_profile_def validate_profile_def required_def build_profile_fields_def
      and_then_def normalize_website_def normalize_skills_def normalize_social_def trim_def
      is_ws_def findOne_user_def sample_defs)

subsection \<open>The order of the two dates of an entry\<close>

text \<open>
  On two dates in the form \<^verbatim>\<open>YYYY-MM-DD\<close> the order of the strings is the order of the
  dates, and such a string denotes the date it was made from.
\<close>

lemma str_lt_irrefl: "\<not> str_lt xs xs"
  by (induction xs) auto

lemma str_lt_append:
  "length xs = length ys \<Longrightarrow>
   str_lt (xs @ s) (ys @ t) = (str_lt xs ys \<or> (xs = ys \<and> str_lt s t))"
  by (induction xs ys rule: list_induct2) auto

lemma length_digits: "length (digits w n) = w"
  by (induction w arbitrary: n) auto

lemma digit_less: "a < 10 \<Longrightarrow> b < 10 \<Longrightarrow>
  ((of_char (char_of (48 + a :: nat)) :: nat) < of_char (char_of (48 + b :: nat))) = (a < b)"
  by simp

lemma digit_eq:
  assumes "a < 10" and "b < 10"
  shows "(char_of (48 + a :: nat) = char_of (48 + b :: nat)) = (a = b)"
proof
  assume "char_of (48 + a) = char_of (48 + b)"
  then have "(of_char (char_of (48 + a)) :: nat) = of_char (char_of (48 + b))"
    by simp
  then show "a = b"
    using assms by simp
next
  assume "a = b"
  then show "char_of (48 + a) = char_of (48 + b)"
    by simp
qed

lemma div_mod_less:
  "((n::nat) < m) = (n div 10 < m div 10 \<or> (n div 10 = m div 10 \<and> n mod 10 < m mod 10))"
proof -
  have "n = 10 * (n div 10) + n mod 10" "m = 10 * (m div 10) + m mod 10"
    by simp_all
  moreover have "n mod 10 < 10" "m mod 10 < 10"
    by simp_all
  ultimately show ?thesis
    by linarith
qed

lemma div_mod_eq:
  "((n::nat) = m) = (n div 10 = m div 10 \<and> n mod 10 = m mod 10)"
  by (metis div_mult_mod_eq)

lemma digits_order:
  "n < 10 ^ w \<Longrightarrow> m < 10 ^ w \<Longrightarrow>
   str_lt (digits w n) (digits w m) = (n < m) \<and> (digits w n = digits w m) = (n = m)"
proof (induction w arbitrary: n m)
  case 0
  then show ?case by simp
next
  case (Suc w)
  have n: "n div 10 < 10 ^ w" and m: "m div 10 < 10 ^ w"
    using Suc.prems by simp_all
  have ih: "str_lt (digits w (n div 10)) (digits w (m div 10)) = (n div 10 < m div 10)"
    "(digits w (n div 10) = digits w (m div 10)) = (n div 10 = m div 10)"
    using Suc.IH [OF n m] by simp_all
  have len: "length (digits w (n div 10)) = length (digits w (m div 10))"
    by (simp add: length_digits)
  have last: "str_lt [char_of (48 + n mod 10)] [char_of (48 + m mod 10)] = (n mod 10 < m mod 10)"
    by simp
  have "str_lt (digits (Suc w) n) (digits (Suc w) m) =
      (n div 10 < m div 10 \<or> (n div 10 = m div 10 \<and> n mod 10 < m mod 10))"
    using str_lt_append [OF len] ih last by simp
  moreover have "(digits (Suc w) n = digits (Suc w) m) =
      (n div 10 = m div 10 \<and> n mod 10 = m mod 10)"
    using ih(2) digit_eq [of "n mod 10" "m mod 10"] by simp
  ultimately show ?case
    using div_mod_less [of n m] div_mod_eq [of n m] by simp
qed

lemma iso_date_order:
  assumes "fits a" and "fits b"
  shows "str_lt (iso_date a) (iso_date b) = chronologically_earlier a b"
proof -
  obtain y m d where a: "a = (y, m, d)" by (cases a)
  obtain y' m' d' where b: "b = (y', m', d')" by (cases b)
  have y: "str_lt (digits 4 y) (digits 4 y') = (y < y')" "(digits 4 y = digits 4 y') = (y = y')"
    using assms a b digits_order [of y 4 y'] by simp_all
  have m: "str_lt (digits 2 m) (digits 2 m') = (m < m')" "(digits 2 m = digits 2 m') = (m = m')"
    using assms a b digits_order [of m 2 m'] by simp_all
  have d: "str_lt (digits 2 d) (digits 2 d') = (d < d')"
    using assms a b digits_order [of d 2 d'] by simp
  have l4: "length (digits 4 y) = length (digits 4 y')"
    by (simp only: length_digits)
  have l2: "length (digits 2 m) = length (digits 2 m')"
    by (simp only: length_digits)
  have "str_lt (digits 2 m @ CHR ''-'' # digits 2 d) (digits 2 m' @ CHR ''-'' # digits 2 d') =
      (m < m' \<or> (m = m' \<and> d < d'))"
    using str_lt_append [OF l2, of "CHR ''-'' # digits 2 d" "CHR ''-'' # digits 2 d'"] m d
    by simp
  then have "str_lt (digits 4 y @ CHR ''-'' # digits 2 m @ CHR ''-'' # digits 2 d)
      (digits 4 y' @ CHR ''-'' # digits 2 m' @ CHR ''-'' # digits 2 d') =
      (y < y' \<or> (y = y' \<and> (m < m' \<or> (m = m' \<and> d < d'))))"
    using str_lt_append [OF l4, of "CHR ''-'' # digits 2 m @ CHR ''-'' # digits 2 d"
        "CHR ''-'' # digits 2 m' @ CHR ''-'' # digits 2 d'"] y
    by simp
  then show ?thesis
    using a b by simp
qed


lemma digits_are_digits:
  "c \<in> set (digits w n) \<Longrightarrow> 48 \<le> (of_char c :: nat) \<and> (of_char c :: nat) \<le> 57"
proof (induction w arbitrary: n)
  case 0
  then show ?case by simp
next
  case (Suc w)
  have "n mod 10 < 10" by simp
  then have "(of_char (char_of (48 + n mod 10)) :: nat) = 48 + n mod 10"
    by simp
  then show ?case
    using Suc by auto
qed

lemma digits_no_dash: "CHR ''-'' \<notin> set (digits w n)"
  using digits_are_digits [of "CHR ''-''" w n] by auto

lemma split_dash_nonempty: "split_dash s \<noteq> []"
  by (induction s) (auto split: list.splits)

lemma split_dash_plain: "CHR ''-'' \<notin> set xs \<Longrightarrow> split_dash xs = [xs]"
  by (induction xs) auto

lemma split_dash_append:
  "CHR ''-'' \<notin> set xs \<Longrightarrow> split_dash (xs @ CHR ''-'' # rest) = xs # split_dash rest"
  by (induction xs) auto

lemma number_from_append:
  "number_from k (xs @ ys) =
     (case number_from k xs of None \<Rightarrow> None | Some k' \<Rightarrow> number_from k' ys)"
  by (induction xs arbitrary: k) auto

lemma number_from_digits:
  "n < 10 ^ w \<Longrightarrow> number_from k (digits w n) = Some (k * 10 ^ w + n)"
proof (induction w arbitrary: n k)
  case 0
  then show ?case by simp
next
  case (Suc w)
  have n: "n div 10 < 10 ^ w"
    using Suc.prems by simp
  have "n mod 10 < 10" by simp
  then have c: "(of_char (char_of (48 + n mod 10)) :: nat) = 48 + n mod 10"
    by simp
  have "number_from k (digits (Suc w) n) =
      number_from (k * 10 ^ w + n div 10) [char_of (48 + n mod 10)]"
    using Suc.IH [OF n, of k] by (simp add: number_from_append)
  also have "\<dots> = Some (10 * (k * 10 ^ w + n div 10) + n mod 10)"
    using c by simp
  also have "10 * (k * 10 ^ w + n div 10) + n mod 10 = k * 10 ^ Suc w + n"
    by (simp add: algebra_simps)
  finally show ?case .
qed

lemma number_of_digits: "0 < w \<Longrightarrow> n < 10 ^ w \<Longrightarrow> number_of (digits w n) = Some n"
  using number_from_digits [of n w 0] length_digits [of w n]
  by (auto simp: number_of_def)

lemma date_of_iso_date:
  assumes "fits a"
  shows "date_of (iso_date a) = Some a"
proof -
  obtain y m d where a: "a = (y, m, d)" by (cases a)
  have "split_dash (iso_date a) = [digits 4 y, digits 2 m, digits 2 d]"
    using a by (simp add: split_dash_append split_dash_plain digits_no_dash)
  moreover have "number_of (digits 4 y) = Some y" "number_of (digits 2 m) = Some m"
    "number_of (digits 2 d) = Some d"
    using assms a by (simp_all add: number_of_digits)
  ultimately show ?thesis
    using a by (simp add: date_of_def)
qed

lemma iso_date_nonempty: "iso_date a \<noteq> []"
  by (cases a) simp

lemma custom_fails:
  assumes "truthy (b ''to'')" and "\<not> js_lt (b ''from'') (b ''to'')"
  shows "validate_experience isEmpty b \<noteq> []"
  using assms by (simp add: validate_experience_def check_from_def from_before_to_def)

lemma add_experience_rejected:
  assumes "validate_experience isEmpty (body rq) \<noteq> []"
  shows "add_experience isEmpty oid rq db =
     (Responded (Response 400 (Errors_json (validate_experience isEmpty (body rq)))), db)"
  using assms by (simp add: add_experience_def)

lemma iso_2020: "iso_date (2020, 1, 1) = ''2020-01-01''"
  by code_simp

lemma iso_2019: "iso_date (2019, 1, 1) = ''2019-01-01''"
  by code_simp

text \<open>
  C8, as the code has it. When the two dates of an add-experience request are both in the
  form \<^verbatim>\<open>YYYY-MM-DD\<close> and the from-date is not chronologically earlier than the to-date,
  the handler answers 400 with the validation errors, among them the one of the from
  field, and the collection is not touched.
\<close>

theorem from_not_before_to_rejected:
  assumes "body rq ''from'' = Str (iso_date a)" and "body rq ''to'' = Str (iso_date b)"
    and "fits a" and "fits b"
    and "\<not> chronologically_earlier a b"
  shows "date_of (iso_date a) = Some a \<and> date_of (iso_date b) = Some b \<and>
         validate_experience isEmpty (body rq) \<noteq> [] \<and>
         add_experience isEmpty oid rq db =
           (Responded (Response 400 (Errors_json (validate_experience isEmpty (body rq)))), db)"
proof -
  have "truthy (body rq ''to'')"
    using assms(2) by (simp add: iso_date_nonempty)
  moreover have "\<not> js_lt (body rq ''from'') (body rq ''to'')"
    using assms iso_date_order [of a b] by (simp add: js_lt_def)
  ultimately have "validate_experience isEmpty (body rq) \<noteq> []"
    by (rule custom_fails)
  then show ?thesis
    using add_experience_rejected [of isEmpty rq oid db] date_of_iso_date assms(3,4) by simp
qed

theorem from_not_before_to_rejected_witness:
  "text_body [(''title'', ''Engineer''), (''company'', ''Acme''), (''from'', ''2020-01-01''),
              (''to'', ''2019-01-01'')] ''from'' = Str (iso_date (2020, 1, 1)) \<and>
   text_body [(''title'', ''Engineer''), (''company'', ''Acme''), (''from'', ''2020-01-01''),
              (''to'', ''2019-01-01'')] ''to'' = Str (iso_date (2019, 1, 1)) \<and>
   fits (2020, 1, 1) \<and> fits (2019, 1, 1) \<and>
   \<not> chronologically_earlier (2020, 1, 1) (2019, 1, 1) \<and>
   add_experience isEmpty_text ''e3''
     \<lparr>user_id = ''u1'', param = [],
      body = text_body [(''title'', ''Engineer''), (''company'', ''Acme''),
                        (''from'', ''2020-01-01''), (''to'', ''2019-01-01'')]\<rparr> [bob, alice] =
     (Responded (Response 400
        (Errors_json [''From date is required and needs to be from the past''])),
      [bob, alice])"
proof -
  let ?b = "text_body [(''title'', ''Engineer''), (''company'', ''Acme''),
                       (''from'', ''2020-01-01''), (''to'', ''2019-01-01'')]"
  let ?rq = "\<lparr>user_id = ''u1'', param = [], body = ?b\<rparr>"
  have f: "?b ''from'' = Str (iso_date (2020, 1, 1))"
    unfolding iso_2020 by (simp add: text_body_def)
  have t: "?b ''to'' = Str (iso_date (2019, 1, 1))"
    unfolding iso_2019 by (simp add: text_body_def)
  have f': "body ?rq ''from'' = Str (iso_date (2020, 1, 1))"
    using f by simp
  have t': "body ?rq ''to'' = Str (iso_date (2019, 1, 1))"
    using t by simp
  have a: "fits (2020, 1, 1)" and b: "fits (2019, 1, 1)"
    by simp_all
  have n: "\<not> chronologically_earlier (2020, 1, 1) (2019, 1, 1)"
    by simp
  have v: "validate_experience isEmpty_text ?b =
      [''From date is required and needs to be from the past'']"
    by (simp add: text_body_def validate_defs)
  have "add_experience isEmpty_text ''e3'' ?rq [bob, alice] =
      (Responded (Response 400 (Errors_json (validate_experience isEmpty_text (body ?rq)))),
       [bob, alice])"
    using from_not_before_to_rejected [OF f' t' a b n, of isEmpty_text "''e3''" "[bob, alice]"]
    by (rule conjunct2 [THEN conjunct2, THEN conjunct2])
  then have r: "add_experience isEmpty_text ''e3'' ?rq [bob, alice] =
      (Responded (Response 400
         (Errors_json [''From date is required and needs to be from the past''])),
       [bob, alice])"
    using v by simp
  from f t a b n r show ?thesis
    by (intro conjI)
qed

text \<open>
  C8 as stated fails: the handler compares the two fields as strings. With the from-date
  \<^verbatim>\<open>2020-10-01\<close> and the to-date \<^verbatim>\<open>2020-9-01\<close>, a month earlier, the string of the first
  is below the string of the second, the request passes validation and the entry is added.
\<close>

theorem later_from_accepted:
  "date_of ''2020-10-01'' = Some (2020, 10, 1) \<and>
   date_of ''2020-9-01'' = Some (2020, 9, 1) \<and>
   \<not> chronologically_earlier (2020, 10, 1) (2020, 9, 1) \<and>
   add_experience isEmpty_text ''e3''
     \<lparr>user_id = ''u1'', param = [],
      body = text_body [(''title'', ''Engineer''), (''company'', ''Acme''),
                        (''from'', ''2020-10-01''), (''to'', ''2020-9-01'')]\<rparr> [bob, alice] =
     (Responded (Response 200 (Profile_json
        (alice\<lparr>experience :=
            newExp ''e3'' (text_body [(''title'', ''Engineer''), (''company'', ''Acme''),
                                      (''from'', ''2020-10-01''), (''to'', ''2020-9-01'')])
            # experience alice\<rparr>))),
      [bob, alice\<lparr>experience :=
            newExp ''e3'' (text_body [(''title'', ''Engineer''), (''company'', ''Acme''),
                                      (''from'', ''2020-10-01''), (''to'', ''2020-9-01'')])
            # experience alice\<rparr>])"
  by (simp add: date_of_def number_of_def text_body_def validate_defs add_experience_def
      findOne_user_def save_def alice_def bob_def blank_profile_def Let_def)

end
